theory Spec2Isabelle
  imports Complex_Main "HOL-Library.Sublist"
begin

section \<open>Screen recorder: capture, audio mixing, session and export\<close>

text \<open>
  A shallow embedding of the recording pipeline of \<^verbatim>\<open>main.py\<close>: the audio mixer
  (\<^verbatim>\<open>AudioRecordThread.save_to_file\<close>), the frame capture loop
  (\<^verbatim>\<open>RecordThread.run\<close>), the export encoder (\<^verbatim>\<open>ExportThread\<close>) and the session
  operations of \<^verbatim>\<open>ScreenRecorder\<close>. Threads are joined before their results are read,
  so every operation is modelled sequentially; the file system is an explicit map from
  paths to file contents, exceptions are values of a sum type, and what the native
  libraries and the external multiplexer do is supplied by an environment.
\<close>

subsection \<open>Python exceptions\<close>

datatype pyerror =
    ValueError
  | ZeroDivisionError
  | FileNotFoundError
  | OSError
  | LibraryError string

subsection \<open>Audio buffers\<close>

text \<open>
  A numpy array of samples is one-dimensional (\<open>Arr1\<close>) or two-dimensional
  (\<open>Arr2 c rows\<close>, of shape \<open>(length rows, c)\<close>). Samples are float32 in the source;
  they are modelled as reals, so rounding is not part of the model.
\<close>

type_synonym sample = real

datatype ndarray = Arr1 "sample list" | Arr2 nat "sample list list"

fun wf_arr :: "ndarray \<Rightarrow> bool" where
  "wf_arr (Arr1 xs) = True"
| "wf_arr (Arr2 c rows) = list_all (\<lambda>r. length r = c) rows"

fun len_arr :: "ndarray \<Rightarrow> nat" where
  "len_arr (Arr1 xs) = length xs"
| "len_arr (Arr2 c rows) = length rows"

fun shape :: "ndarray \<Rightarrow> nat list" where
  "shape (Arr1 xs) = [length xs]"
| "shape (Arr2 c rows) = [length rows, c]"

fun channels :: "ndarray \<Rightarrow> nat" where
  "channels (Arr1 xs) = 1"
| "channels (Arr2 c rows) = c"

text \<open>\<^verbatim>\<open>p[:n]\<close>: the first \<open>n\<close> rows.\<close>

fun take_arr :: "nat \<Rightarrow> ndarray \<Rightarrow> ndarray" where
  "take_arr n (Arr1 xs) = Arr1 (take n xs)"
| "take_arr n (Arr2 c rows) = Arr2 c (take n rows)"

text \<open>\<^verbatim>\<open>np.concatenate([a, b], axis=0)\<close> of two arrays; the dimensions other than the
  first must agree.\<close>

fun concat2 :: "ndarray \<Rightarrow> ndarray \<Rightarrow> pyerror + ndarray" where
  "concat2 (Arr1 xs) (Arr1 ys) = Inr (Arr1 (xs @ ys))"
| "concat2 (Arr2 c xs) (Arr2 d ys) = (if c = d then Inr (Arr2 c (xs @ ys)) else Inl ValueError)"
| "concat2 (Arr1 xs) (Arr2 d ys) = Inl ValueError"
| "concat2 (Arr2 c xs) (Arr1 ys) = Inl ValueError"

text \<open>\<^verbatim>\<open>np.concatenate(chunks, axis=0)\<close>; an empty list of chunks raises.\<close>

fun np_concatenate :: "ndarray list \<Rightarrow> pyerror + ndarray" where
  "np_concatenate [] = Inl ValueError"
| "np_concatenate [a] = Inr a"
| "np_concatenate (a # b # bs) =
     (case np_concatenate (b # bs) of
        Inl e \<Rightarrow> Inl e
      | Inr r \<Rightarrow> concat2 a r)"

text \<open>
  The local function \<^verbatim>\<open>ensure_stereo\<close> of \<^verbatim>\<open>save_to_file\<close>:
  \<^verbatim>\<open>
    if audio.ndim == 1:
        return np.column_stack([audio, audio])
    elif audio.shape[1] == 1:
        return np.column_stack([audio[:, 0], audio[:, 0]])
    return audio
  \<close>
\<close>

fun ensure_stereo :: "ndarray \<Rightarrow> ndarray" where
  "ensure_stereo (Arr1 xs) = Arr2 2 (map (\<lambda>x. [x, x]) xs)"
| "ensure_stereo (Arr2 c rows) =
     (if c = 1 then Arr2 2 (map (\<lambda>r. [r ! 0, r ! 0]) rows) else Arr2 c rows)"

text \<open>The entry at row \<open>i\<close>, column \<open>j\<close> (column ignored for one dimension).\<close>

fun elem :: "ndarray \<Rightarrow> nat \<Rightarrow> nat \<Rightarrow> sample" where
  "elem (Arr1 xs) i j = xs ! i"
| "elem (Arr2 c rows) i j = rows ! i ! j"

text \<open>
  \<^verbatim>\<open>np.mean(aligned, axis=0)\<close> on a list of arrays: the list is first made one array,
  which raises unless all members have the same shape; the result has the members' shape
  and holds the entry-wise mean. The source calls it with at least two members.
\<close>

fun mean_like :: "ndarray \<Rightarrow> ndarray list \<Rightarrow> ndarray" where
  "mean_like (Arr1 xs) ps =
     Arr1 (map (\<lambda>i. sum_list (map (\<lambda>p. elem p i 0) ps) / real (length ps)) [0..<length xs])"
| "mean_like (Arr2 c rows) ps =
     Arr2 c (map (\<lambda>i. map (\<lambda>j. sum_list (map (\<lambda>p. elem p i j) ps) / real (length ps)) [0..<c])
               [0..<length rows])"

fun same_kind :: "ndarray \<Rightarrow> ndarray \<Rightarrow> bool" where
  "same_kind (Arr1 xs) (Arr1 ys) = (length xs = length ys)"
| "same_kind (Arr2 c xs) (Arr2 d ys) = (length xs = length ys \<and> c = d)"
| "same_kind (Arr1 xs) (Arr2 d ys) = False"
| "same_kind (Arr2 c xs) (Arr1 ys) = False"

fun np_mean_axis0 :: "ndarray list \<Rightarrow> pyerror + ndarray" where
  "np_mean_axis0 [] = Inl ValueError"
| "np_mean_axis0 (p # ps) =
     (if list_all (same_kind p) ps then Inr (mean_like p (p # ps)) else Inl ValueError)"

subsection \<open>The audio recording thread and its mixer\<close>

record audio_record_thread =
  sample_rate :: nat
  record_system :: bool
  record_mic :: bool
  system_audio_data :: "ndarray list"
  mic_audio_data :: "ndarray list"
  system_channels :: nat
  mic_channels :: nat

text \<open>\<^verbatim>\<open>AudioRecordThread.__init__\<close> with its default arguments.\<close>

definition audio_record_thread_init :: audio_record_thread where
  "audio_record_thread_init =
     \<lparr>sample_rate = 44100, record_system = True, record_mic = True,
      system_audio_data = [], mic_audio_data = [], system_channels = 2, mic_channels = 1\<rparr>"

text \<open>One source of \<^verbatim>\<open>save_to_file\<close>: nothing when its chunk list is empty, else the
  concatenated and coerced buffer.\<close>

definition source_part :: "ndarray list \<Rightarrow> pyerror + ndarray list" where
  "source_part chunks =
     (if chunks = [] then Inr []
      else case np_concatenate chunks of
             Inl e \<Rightarrow> Inl e
           | Inr a \<Rightarrow> Inr [ensure_stereo a])"

text \<open>\<^verbatim>\<open>min(len(p) for p in audio_parts)\<close> on a non-empty list.\<close>

definition min_len :: "ndarray \<Rightarrow> ndarray list \<Rightarrow> nat" where
  "min_len p ps = fold min (map len_arr ps) (len_arr p)"

text \<open>The mixing step of \<^verbatim>\<open>save_to_file\<close>, on the list \<^verbatim>\<open>audio_parts\<close>: \<open>Inr None\<close> is
  the early \<^verbatim>\<open>return None\<close>.\<close>

fun mix_parts :: "ndarray list \<Rightarrow> pyerror + ndarray option" where
  "mix_parts [] = Inr None"
| "mix_parts [p] = Inr (Some p)"
| "mix_parts (p # q # rs) =
     (case np_mean_axis0 (map (take_arr (min_len p (q # rs))) (p # q # rs)) of
        Inl e \<Rightarrow> Inl e
      | Inr m \<Rightarrow> Inr (Some m))"

text \<open>The value of \<^verbatim>\<open>mixed\<close> that \<^verbatim>\<open>save_to_file\<close> hands to the writer.\<close>

definition mixed_audio :: "audio_record_thread \<Rightarrow> pyerror + ndarray option" where
  "mixed_audio t =
     (case source_part (system_audio_data t) of
        Inl e \<Rightarrow> Inl e
      | Inr sys \<Rightarrow>
          (case source_part (mic_audio_data t) of
             Inl e \<Rightarrow> Inl e
           | Inr mic \<Rightarrow> mix_parts (sys @ mic)))"

subsection \<open>Files\<close>

type_synonym path = string

text \<open>A pixel is three bytes; a frame is a raster of \<open>frame_h\<close> rows and \<open>frame_w\<close>
  columns, stored row by row.\<close>

type_synonym pixel = "nat \<times> nat \<times> nat"

record frame =
  frame_h :: nat
  frame_w :: nat
  pixels :: "pixel list"

datatype content =
    Wav_file ndarray nat
  | Video_file string int nat nat "frame list"
  | Gif_file "frame list" int
  | Muxed_file content content
  | Other_file

type_synonym fs = "path \<rightharpoonup> content"

text \<open>What \<^verbatim>\<open>sf.write\<close> does is outside the program: it writes the file or raises.\<close>

datatype write_outcome = Write_ok | Write_raises pyerror

text \<open>
  \<^verbatim>\<open>AudioRecordThread.save_to_file\<close>: every exception is caught and turned into the
  result \<^verbatim>\<open>None\<close>. The result is the returned path and the file system afterwards.
\<close>

definition save_to_file :: "audio_record_thread \<Rightarrow> path \<Rightarrow> write_outcome \<Rightarrow> fs \<Rightarrow> path option \<times> fs" where
  "save_to_file t filepath w files =
     (case mixed_audio t of
        Inl e \<Rightarrow> (None, files)
      | Inr None \<Rightarrow> (None, files)
      | Inr (Some mixed) \<Rightarrow>
          (case w of
             Write_ok \<Rightarrow> (Some filepath, files(filepath \<mapsto> Wav_file mixed (sample_rate t)))
           | Write_raises e \<Rightarrow> (None, files)))"

subsection \<open>Audio capture\<close>

text \<open>
  The native audio layer calls \<^verbatim>\<open>system_callback\<close> and \<^verbatim>\<open>mic_callback\<close> with the
  chunks it delivers. A delivered chunk is given by its rows: for the system stream the
  buffer after \<^verbatim>\<open>reshape(-1, self.system_channels)\<close>, for the microphone the
  two-dimensional \<^verbatim>\<open>indata\<close>.
\<close>

datatype audio_event = System_chunk "sample list list" | Mic_chunk "sample list list"

record audio_env =
  loopback_channels :: "nat option"
  default_input_channels :: "nat option"
  delivered :: "audio_event list"

text \<open>
  \<^verbatim>\<open>AudioRecordThread.run\<close>, from the start to the moment \<^verbatim>\<open>stop\<close> has been honoured.
  \<open>loopback_channels\<close> is \<^verbatim>\<open>maxInputChannels\<close> of the loopback device found (\<open>None\<close>
  when none is found or opening it raises), \<open>default_input_channels\<close> is
  \<^verbatim>\<open>max_input_channels\<close> of the default input device (\<open>None\<close> when the query or the
  stream raises). \<open>delivered\<close> lists, in arrival order, the chunks handed to the callbacks
  while \<^verbatim>\<open>is_recording\<close> is set; a stream that was not opened delivers nothing.
\<close>

fun audio_callback :: "bool \<Rightarrow> bool \<Rightarrow> audio_event \<Rightarrow> audio_record_thread \<Rightarrow> audio_record_thread" where
  "audio_callback sys_open mic_open (System_chunk rows) t =
     (if sys_open
      then t\<lparr>system_audio_data := system_audio_data t @ [Arr2 (system_channels t) rows]\<rparr>
      else t)"
| "audio_callback sys_open mic_open (Mic_chunk rows) t =
     (if mic_open
      then t\<lparr>mic_audio_data := mic_audio_data t @ [Arr2 (mic_channels t) rows]\<rparr>
      else t)"

definition audio_thread_run :: "bool \<Rightarrow> bool \<Rightarrow> audio_env \<Rightarrow> audio_record_thread \<Rightarrow> audio_record_thread" where
  "audio_thread_run system_audio_available audio_available e t =
     (let t0 = t\<lparr>system_audio_data := [], mic_audio_data := []\<rparr>;
          sys_open = (record_system t0 \<and> system_audio_available \<and> loopback_channels e \<noteq> None);
          t1 = (case loopback_channels e of
                  Some c \<Rightarrow> if record_system t0 \<and> system_audio_available
                            then t0\<lparr>system_channels := c\<rparr> else t0
                | None \<Rightarrow> t0);
          t2 = (case default_input_channels e of
                  Some m \<Rightarrow> if record_mic t1 \<and> audio_available
                            then t1\<lparr>mic_channels := min 2 m\<rparr> else t1
                | None \<Rightarrow> t1);
          mic_open = (record_mic t2 \<and> audio_available \<and> default_input_channels e \<noteq> None
                       \<and> mic_channels t2 > 0)
      in fold (audio_callback sys_open mic_open) (delivered e) t2)"

subsection \<open>The frame capture loop\<close>

text \<open>
  One iteration of the loop of \<^verbatim>\<open>RecordThread.run\<close> either obtains a converted frame
  (\<^verbatim>\<open>sct.grab\<close>, \<^verbatim>\<open>np.array\<close>, \<^verbatim>\<open>cv2.cvtColor\<close>) or one of these calls raises.
\<close>

datatype tick = Grabbed frame | Tick_raises pyerror

datatype record_signal = Frame_captured nat | Recording_stopped

record capture_state =
  cap_frames :: "frame list"
  cap_count :: nat
  cap_emitted :: "record_signal list"
  cap_printed :: "pyerror list"

fun capture_tick :: "tick \<Rightarrow> capture_state \<Rightarrow> capture_state" where
  "capture_tick (Grabbed f) s =
     s\<lparr>cap_frames := cap_frames s @ [f],
       cap_count := cap_count s + 1,
       cap_emitted := cap_emitted s @ [Frame_captured (cap_count s + 1)]\<rparr>"
| "capture_tick (Tick_raises e) s = s\<lparr>cap_printed := cap_printed s @ [e]\<rparr>"

text \<open>The loop runs one iteration for each tick that begins before the stop flag is
  seen; \<open>ticks\<close> lists what happened on each of them.\<close>

fun capture_loop :: "tick list \<Rightarrow> capture_state \<Rightarrow> capture_state" where
  "capture_loop [] s = s"
| "capture_loop (t # ts) s = capture_loop ts (capture_tick t s)"

definition capture_start :: capture_state where
  "capture_start = \<lparr>cap_frames = [], cap_count = 0, cap_emitted = [], cap_printed = []\<rparr>"

subsection \<open>The record thread\<close>

record region =
  region_left :: int
  region_top :: int
  region_width :: int
  region_height :: int

record record_thread =
  rt_fps :: int
  rt_region :: "region option"
  rt_record_audio :: bool
  rt_is_recording :: bool
  rt_frames :: "frame list"
  rt_audio_thread :: "audio_record_thread option"
  rt_audio_file :: "path option"

text \<open>\<^verbatim>\<open>RecordThread.__init__\<close>; \<open>audio_available\<close> is the module flag
  \<^verbatim>\<open>AUDIO_AVAILABLE\<close>.\<close>

definition record_thread_init :: "bool \<Rightarrow> int \<Rightarrow> region option \<Rightarrow> bool \<Rightarrow> record_thread" where
  "record_thread_init audio_available fps rg record_audio =
     \<lparr>rt_fps = fps, rt_region = rg, rt_record_audio = (record_audio \<and> audio_available),
      rt_is_recording = False, rt_frames = [], rt_audio_thread = None, rt_audio_file = None\<rparr>"

text \<open>What the surroundings contribute to one run of the record thread: the ticks, the
  audio that is delivered, the name chosen for the temporary audio file and whether
  writing it succeeds.\<close>

record run_env =
  ticks :: "tick list"
  audio :: audio_env
  system_audio_available :: bool
  audio_available :: bool
  audio_temp_path :: path
  audio_write :: write_outcome

text \<open>
  \<^verbatim>\<open>RecordThread.run\<close> from its start until it returns, the flag having been cleared by
  \<^verbatim>\<open>stop\<close>. An audio thread is created and started only when \<^verbatim>\<open>record_audio\<close> is set;
  after the loop any audio thread the object holds is stopped and asked to save. The result
  of \<^verbatim>\<open>save_to_file\<close> is not looked at by the source.
\<close>

definition record_thread_run ::
  "run_env \<Rightarrow> record_thread \<Rightarrow> fs \<Rightarrow> record_thread \<times> capture_state \<times> fs" where
  "record_thread_run e t files =
     (let t1 = (if rt_record_audio t
                then t\<lparr>rt_audio_thread := Some audio_record_thread_init\<rparr> else t);
          c = capture_loop (ticks e) capture_start;
          t2 = t1\<lparr>rt_is_recording := False, rt_frames := cap_frames c\<rparr>;
          c' = c\<lparr>cap_emitted := cap_emitted c @ [Recording_stopped]\<rparr>
      in case rt_audio_thread t2 of
           None \<Rightarrow> (t2, c', files)
         | Some a \<Rightarrow>
             (let a' = (if rt_record_audio t
                        then audio_thread_run (system_audio_available e) (audio_available e) (audio e) a
                        else a);
                  t3 = t2\<lparr>rt_audio_thread := Some a', rt_audio_file := Some (audio_temp_path e)\<rparr>
              in (t3, c', snd (save_to_file a' (audio_temp_path e) (audio_write e) files))))"

subsection \<open>The export thread\<close>

record export_thread =
  ex_frames :: "frame list"
  ex_path :: path
  ex_fps :: int
  ex_fmt :: string
  ex_gif_fps :: int
  ex_audio_file :: "path option"

text \<open>The text carried by \<^verbatim>\<open>export_finished\<close>: the fixed message of the empty
  recording, the output path, or \<^verbatim>\<open>str(e)\<close> of a caught exception.\<close>

datatype finish_text = No_frames_recorded | Output_path path | Exception_text pyerror

text \<open>\<open>Progress_updated k n c\<close> stands for \<^verbatim>\<open>progress_updated.emit(int(k / n * c))\<close>;
  the literal \<^verbatim>\<open>emit(100)\<close> after the multiplexer is written \<open>Progress_updated 100 100 100\<close>.\<close>

datatype export_signal = Progress_updated nat nat nat | Export_finished bool finish_text

text \<open>The external multiplexer either cannot be launched (\<^verbatim>\<open>subprocess.run\<close> raises) or
  exits with a return code, having left at the output path what the second component says
  (\<open>None\<close>: it wrote nothing there).\<close>

datatype mux_outcome = Launch_raises pyerror | Exited int "content option"

record export_env =
  temp_video :: path
  ffmpeg :: mux_outcome
  resize :: "frame \<Rightarrow> real \<Rightarrow> real \<Rightarrow> frame"

text \<open>Python's \<^verbatim>\<open>seq[::step]\<close> for a positive step: the entries at
  \<^verbatim>\<open>range(0, len(seq), step)\<close>.\<close>

definition slice_step :: "nat \<Rightarrow> 'a list \<Rightarrow> 'a list" where
  "slice_step step xs = map (\<lambda>i. xs ! (i * step)) [0..<(length xs + step - 1) div step]"

text \<open>\<^verbatim>\<open>cv2.cvtColor(frame, cv2.COLOR_BGR2RGB)\<close>.\<close>

definition cvtColor_BGR2RGB :: "frame \<Rightarrow> frame" where
  "cvtColor_BGR2RGB f = f\<lparr>pixels := map (\<lambda>(b, g, r). (r, g, b)) (pixels f)\<rparr>"

text \<open>The body of the loop over the selected frames: \<^verbatim>\<open>scale = 1000 / w\<close> and
  \<^verbatim>\<open>cv2.resize(rgb, (0, 0), fx=scale, fy=scale)\<close> when \<^verbatim>\<open>w > 1000\<close>.\<close>

definition gif_frame :: "(frame \<Rightarrow> real \<Rightarrow> real \<Rightarrow> frame) \<Rightarrow> frame \<Rightarrow> frame" where
  "gif_frame rsz f =
     (let rgb = cvtColor_BGR2RGB f; w = frame_w rgb
      in if w > 1000 then rsz rgb (1000 / real w) (1000 / real w) else rgb)"

definition gif_step :: "int \<Rightarrow> int \<Rightarrow> pyerror + int" where
  "gif_step fps gif_fps = (if gif_fps = 0 then Inl ZeroDivisionError else Inr (max 1 (fps div gif_fps)))"

definition export_gif :: "export_env \<Rightarrow> export_thread \<Rightarrow> fs \<Rightarrow> pyerror + export_signal list \<times> fs" where
  "export_gif e t files =
     (case gif_step (ex_fps t) (ex_gif_fps t) of
        Inl err \<Rightarrow> Inl err
      | Inr step \<Rightarrow>
          (let selected = slice_step (nat step) (ex_frames t);
               count = length selected;
               frames_rgb = map (gif_frame (resize e)) selected
           in Inr (map (\<lambda>i. Progress_updated (i + 1) count 100) [0..<count],
                   files(ex_path t \<mapsto> Gif_file frames_rgb (ex_gif_fps t)))))"

text \<open>\<^verbatim>\<open>fourcc_map.get(self.fmt, fourcc_map['mp4'])\<close>.\<close>

definition fourcc_of :: "string \<Rightarrow> string" where
  "fourcc_of fmt =
     (if fmt = ''mp4'' then ''mp4v''
      else if fmt = ''avi'' then ''XVID''
      else if fmt = ''webm'' then ''VP80''
      else ''mp4v'')"

definition export_video_only :: "export_thread \<Rightarrow> nat \<Rightarrow> nat \<Rightarrow> nat \<Rightarrow> fs \<Rightarrow> export_signal list \<times> fs" where
  "export_video_only t w h tot files =
     (map (\<lambda>i. Progress_updated (i + 1) tot 100) [0..<length (ex_frames t)],
      files(ex_path t \<mapsto> Video_file (fourcc_of (ex_fmt t)) (ex_fps t) w h (ex_frames t)))"

definition os_path_exists :: "path \<Rightarrow> fs \<Rightarrow> bool" where
  "os_path_exists p files = (files p \<noteq> None)"

definition os_remove :: "path \<Rightarrow> fs \<Rightarrow> fs" where
  "os_remove p files = files(p := None)"

definition shutil_copy :: "path \<Rightarrow> path \<Rightarrow> fs \<Rightarrow> pyerror + fs" where
  "shutil_copy src dst files =
     (case files src of
        None \<Rightarrow> Inl FileNotFoundError
      | Some c \<Rightarrow> Inr (files(dst \<mapsto> c)))"

text \<open>The handler \<^verbatim>\<open>except Exception\<close> of \<^verbatim>\<open>_export_with_audio\<close>: copy the temporary
  video to the output path if it exists.\<close>

definition merge_handler :: "path \<Rightarrow> path \<Rightarrow> fs \<Rightarrow> fs" where
  "merge_handler tv out files =
     (if os_path_exists tv files
      then (case shutil_copy tv out files of Inl err \<Rightarrow> files | Inr files' \<Rightarrow> files')
      else files)"

text \<open>
  \<^verbatim>\<open>ExportThread._export_with_audio\<close>, called with an audio path \<open>af\<close>. After the
  multiplexer has returned, the source emits 100, removes the temporary video and the
  audio file, and only then looks at the return code:
  \<^verbatim>\<open>
    if os.path.exists(temp_video): os.remove(temp_video)
    if os.path.exists(self.audio_file): os.remove(self.audio_file)
    if result.returncode != 0:
        shutil.copy(temp_video, self.path)
  \<close>
  all inside the \<^verbatim>\<open>try\<close> whose handler is \<open>merge_handler\<close>.
\<close>

definition export_with_audio ::
  "export_env \<Rightarrow> export_thread \<Rightarrow> path \<Rightarrow> nat \<Rightarrow> nat \<Rightarrow> nat \<Rightarrow> fs \<Rightarrow> export_signal list \<times> fs" where
  "export_with_audio e t af w h tot files =
     (let tv = temp_video e;
          files1 = files(tv \<mapsto> Video_file ''mp4v'' (ex_fps t) w h (ex_frames t));
          video_progress = map (\<lambda>i. Progress_updated (i + 1) tot 80) [0..<length (ex_frames t)]
      in case ffmpeg e of
           Launch_raises err \<Rightarrow> (video_progress, merge_handler tv (ex_path t) files1)
         | Exited rc written \<Rightarrow>
             (let files2 = (case written of None \<Rightarrow> files1 | Some c \<Rightarrow> files1(ex_path t \<mapsto> c));
                  files3 = (if os_path_exists tv files2 then os_remove tv files2 else files2);
                  files4 = (if os_path_exists af files3 then os_remove af files3 else files3)
              in (video_progress @ [Progress_updated 100 100 100],
                  if rc \<noteq> 0
                  then (case shutil_copy tv (ex_path t) files4 of
                          Inl err \<Rightarrow> merge_handler tv (ex_path t) files4
                        | Inr files5 \<Rightarrow> files5)
                  else files4)))"

text \<open>The guard \<^verbatim>\<open>self.audio_file and os.path.exists(self.audio_file)\<close>; an empty path
  string is false in Python.\<close>

definition audio_present :: "path option \<Rightarrow> fs \<Rightarrow> bool" where
  "audio_present af files =
     (case af of None \<Rightarrow> False | Some p \<Rightarrow> p \<noteq> [] \<and> os_path_exists p files)"

text \<open>
  \<^verbatim>\<open>ExportThread.run\<close>: the signals emitted, in order, and the file system afterwards.
  The only exception of the model that reaches the outer handler is the division by a zero
  \<^verbatim>\<open>gif_fps\<close>, raised before anything is written.
\<close>

definition export_run :: "export_env \<Rightarrow> export_thread \<Rightarrow> fs \<Rightarrow> export_signal list \<times> fs" where
  "export_run e t files =
     (let tot = length (ex_frames t)
      in if tot = 0 then ([Export_finished False No_frames_recorded], files)
         else if ex_fmt t = ''gif''
         then (case export_gif e t files of
                 Inl err \<Rightarrow> ([Export_finished False (Exception_text err)], files)
               | Inr (sigs, files') \<Rightarrow> (sigs @ [Export_finished True (Output_path (ex_path t))], files'))
         else (let h = frame_h (ex_frames t ! 0); w = frame_w (ex_frames t ! 0);
                   r = (if audio_present (ex_audio_file t) files
                        then export_with_audio e t (the (ex_audio_file t)) w h tot files
                        else export_video_only t w h tot files)
               in (fst r @ [Export_finished True (Output_path (ex_path t))], snd r)))"

text \<open>The terminal signal of a job.\<close>

definition job_result :: "export_signal list \<times> fs \<Rightarrow> export_signal" where
  "job_result r = last (fst r)"

subsection \<open>The recording session\<close>

text \<open>
  The state of \<^verbatim>\<open>ScreenRecorder\<close> that the recording and export operations read and
  write. \<open>audio_file\<close> is \<open>None\<close> both when the attribute holds \<^verbatim>\<open>None\<close> and when it has
  not been set yet (it is read with \<^verbatim>\<open>getattr(self, 'audio_file', None)\<close>). The last five
  fields are the widgets the operations consult.
\<close>

record screen_recorder =
  frames :: "frame list"
  is_recording :: bool
  record_thread :: "record_thread option"
  record_time :: nat
  audio_file :: "path option"
  combo_fps :: int
  check_audio :: bool
  combo_fmt :: string
  spin_gif_fps :: int
  btn_export_enabled :: bool

definition screen_recorder_init :: screen_recorder where
  "screen_recorder_init =
     \<lparr>frames = [], is_recording = False, record_thread = None, record_time = 0,
      audio_file = None, combo_fps = 30, check_audio = True, combo_fmt = ''mp4'',
      spin_gif_fps = 10, btn_export_enabled = False\<rparr>"

text \<open>\<^verbatim>\<open>ScreenRecorder.start_recording\<close>; \<open>av\<close> is the module flag \<^verbatim>\<open>AUDIO_AVAILABLE\<close>.\<close>

definition start_recording :: "bool \<Rightarrow> region \<Rightarrow> screen_recorder \<Rightarrow> screen_recorder" where
  "start_recording av rg s =
     (let s1 = (if frames s = []
                then s\<lparr>frames := [], record_time := 0, audio_file := None\<rparr>
                else s)
      in s1\<lparr>is_recording := True,
            record_thread := Some (record_thread_init av (combo_fps s1) (Some rg) (check_audio s1))\<rparr>)"

text \<open>Between \<^verbatim>\<open>start\<close> and the \<^verbatim>\<open>wait\<close> of \<^verbatim>\<open>stop_recording\<close> the record thread
  executes its \<^verbatim>\<open>run\<close>.\<close>

definition thread_runs :: "run_env \<Rightarrow> screen_recorder \<times> fs \<Rightarrow> screen_recorder \<times> fs" where
  "thread_runs e w =
     (case record_thread (fst w) of
        None \<Rightarrow> w
      | Some t \<Rightarrow>
          (case record_thread_run e t (snd w) of
             (t', c, files') \<Rightarrow> ((fst w)\<lparr>record_thread := Some t'\<rparr>, files')))"

text \<open>\<^verbatim>\<open>ScreenRecorder.stop_recording\<close>, after the thread has been joined.\<close>

definition stop_recording :: "bool \<Rightarrow> screen_recorder \<Rightarrow> screen_recorder" where
  "stop_recording finish s =
     (let s1 = (case record_thread s of
                  None \<Rightarrow> s
                | Some t \<Rightarrow> s\<lparr>frames := frames s @ rt_frames t, audio_file := rt_audio_file t\<rparr>);
          s2 = s1\<lparr>is_recording := False\<rparr>
      in if finish \<and> frames s2 \<noteq> [] then s2\<lparr>btn_export_enabled := True\<rparr> else s2)"

text \<open>\<^verbatim>\<open>ScreenRecorder.reselect_region\<close>: stop without finishing; the selector shown
  afterwards calls \<open>start_recording\<close> with the new region.\<close>

definition reselect_region :: "screen_recorder \<Rightarrow> screen_recorder" where
  "reselect_region s = stop_recording False s"

definition update_time :: "screen_recorder \<Rightarrow> screen_recorder" where
  "update_time s = s\<lparr>record_time := record_time s + 1\<rparr>"

text \<open>\<^verbatim>\<open>ScreenRecorder.start_export\<close> followed by the export thread's run and
  \<^verbatim>\<open>on_export_done\<close>; \<open>out\<close> is the output path built from the chosen directory, and
  \<open>combo_fmt\<close> holds the selected format in lower case.\<close>

definition export_job :: "path \<Rightarrow> screen_recorder \<Rightarrow> export_thread" where
  "export_job out s =
     \<lparr>ex_frames = frames s, ex_path = out, ex_fps = combo_fps s, ex_fmt = combo_fmt s,
      ex_gif_fps = spin_gif_fps s,
      ex_audio_file = (if combo_fmt s = ''gif'' then None else audio_file s)\<rparr>"

definition start_export :: "export_env \<Rightarrow> path \<Rightarrow> screen_recorder \<times> fs \<Rightarrow> screen_recorder \<times> fs" where
  "start_export e out w =
     (if frames (fst w) = [] then w
      else ((fst w)\<lparr>btn_export_enabled := True\<rparr>,
            snd (export_run e (export_job out (fst w)) (snd w))))"

text \<open>The operations that act on a session.\<close>

datatype operation =
    Start_recording region
  | Thread_runs run_env
  | Stop_recording bool
  | Reselect_region
  | Update_time
  | Start_export export_env path

fun perform :: "bool \<Rightarrow> operation \<Rightarrow> screen_recorder \<times> fs \<Rightarrow> screen_recorder \<times> fs" where
  "perform av (Start_recording rg) w = (start_recording av rg (fst w), snd w)"
| "perform av (Thread_runs e) w = thread_runs e w"
| "perform av (Stop_recording finish) w = (stop_recording finish (fst w), snd w)"
| "perform av Reselect_region w = (reselect_region (fst w), snd w)"
| "perform av Update_time w = (update_time (fst w), snd w)"
| "perform av (Start_export e out) w = start_export e out w"

subsection \<open>Selecting every n-th frame, in the words of the specification\<close>

text \<open>Every \<open>n\<close>-th frame, starting with the first and keeping the order: the frames whose
  position is a multiple of \<open>n\<close>.\<close>

definition every_nth :: "nat \<Rightarrow> 'a list \<Rightarrow> 'a list" where
  "every_nth n xs = map (\<lambda>i. xs ! i) (filter (\<lambda>i. i mod n = 0) [0..<length xs])"

text \<open>The step of the specification: \<open>max(1, floor(capture_fps / target_gif_fps))\<close>.\<close>

definition gif_stride :: "int \<Rightarrow> int \<Rightarrow> nat" where
  "gif_stride fps gif_fps = nat (max 1 \<lfloor>real_of_int fps / real_of_int gif_fps\<rfloor>)"

subsection \<open>Sub-runs\<close>

text \<open>The frames of the ticks on which the grab succeeded, in order.\<close>

fun grabbed :: "tick list \<Rightarrow> frame list" where
  "grabbed [] = []"
| "grabbed (Grabbed f # ts) = f # grabbed ts"
| "grabbed (Tick_raises e # ts) = grabbed ts"

text \<open>One sub-run of a session: start on a region, the thread runs, and the sub-run is
  ended by \<open>ending\<close> (a stop or a reselection).\<close>

definition sub_run ::
  "bool \<Rightarrow> region \<Rightarrow> run_env \<Rightarrow> operation \<Rightarrow> screen_recorder \<times> fs \<Rightarrow> screen_recorder \<times> fs" where
  "sub_run av rg e ending w =
     perform av ending (perform av (Thread_runs e) (perform av (Start_recording rg) w))"

subsection \<open>Concrete inputs\<close>

definition numbered_frame :: "nat \<Rightarrow> frame" where
  "numbered_frame n = \<lparr>frame_h = 1, frame_w = 1, pixels = [(n, n, n)]\<rparr>"

definition solid_frame :: "nat \<Rightarrow> nat \<Rightarrow> frame" where
  "solid_frame h w = \<lparr>frame_h = h, frame_w = w, pixels = replicate (h * w) (10, 20, 30)\<rparr>"

text \<open>A resize that produces the rounded dimensions and a uniform picture.\<close>

definition demo_resize :: "frame \<Rightarrow> real \<Rightarrow> real \<Rightarrow> frame" where
  "demo_resize f fx fy =
     (let w = nat \<lfloor>fx * real (frame_w f) + 1 / 2\<rfloor>; h = nat \<lfloor>fy * real (frame_h f) + 1 / 2\<rfloor>
      in \<lparr>frame_h = h, frame_w = w, pixels = replicate (h * w) (hd (pixels f))\<rparr>)"

definition demo_export_env :: "mux_outcome \<Rightarrow> export_env" where
  "demo_export_env m = \<lparr>temp_video = ''tmp/temp_video_1.mp4'', ffmpeg = m, resize = demo_resize\<rparr>"

definition demo_job :: "frame list \<Rightarrow> string \<Rightarrow> int \<Rightarrow> path option \<Rightarrow> export_thread" where
  "demo_job fs fmt gif_fps af =
     \<lparr>ex_frames = fs, ex_path = ''out/Rec_1.'' @ fmt, ex_fps = 30, ex_fmt = fmt,
      ex_gif_fps = gif_fps, ex_audio_file = af\<rparr>"

definition demo_region :: region where
  "demo_region = \<lparr>region_left = 0, region_top = 0, region_width = 1, region_height = 1\<rparr>"

definition demo_run_env :: "tick list \<Rightarrow> audio_event list \<Rightarrow> nat option \<Rightarrow> write_outcome \<Rightarrow> run_env" where
  "demo_run_env ts evs loopback wr =
     \<lparr>ticks = ts,
      audio = \<lparr>loopback_channels = loopback, default_input_channels = Some 1, delivered = evs\<rparr>,
      system_audio_available = True, audio_available = True,
      audio_temp_path = ''tmp/screen_rec_audio_1.wav'', audio_write = wr\<rparr>"

section \<open>Properties\<close>

subsection \<open>Lemmas on the audio mixer\<close>

lemma ensure_stereo_len: "len_arr (ensure_stereo a) = len_arr a"
  by (cases a) simp_all

lemma ensure_stereo_channels:
  "channels a = 1 \<or> channels a = 2 \<Longrightarrow> channels (ensure_stereo a) = 2"
  by (cases a) auto

lemma ensure_stereo_mono_rows:
  "i < length rows \<Longrightarrow>
     elem (ensure_stereo (Arr2 1 rows)) i 0 = rows ! i ! 0 \<and>
     elem (ensure_stereo (Arr2 1 rows)) i 1 = rows ! i ! 0"
  by simp

lemma np_concatenate_uniform:
  "chunks \<noteq> [] \<Longrightarrow> np_concatenate (map (Arr2 c) chunks) = Inr (Arr2 c (concat chunks))"
proof (induction chunks rule: induct_list012)
  case 1
  then show ?case by simp
next
  case (2 x)
  then show ?case by simp
next
  case (3 x y zs)
  then show ?case by simp
qed

lemma source_part_uniform:
  "chunks \<noteq> [] \<Longrightarrow> source_part (map (Arr2 c) chunks) = Inr [ensure_stereo (Arr2 c (concat chunks))]"
  by (simp add: source_part_def np_concatenate_uniform)

lemma mix_two_stereo:
  "mix_parts [Arr2 2 xs, Arr2 2 ys] =
     Inr (Some (Arr2 2 (map (\<lambda>i. map (\<lambda>j. (xs ! i ! j + ys ! i ! j) / 2) [0..<2])
                         [0..<min (length xs) (length ys)])))"
  by (simp add: min_len_def min.commute)

lemma ensure_stereo_Arr2:
  "c = 1 \<or> c = 2 \<Longrightarrow> \<exists>rows'. ensure_stereo (Arr2 c rows) = Arr2 2 rows' \<and> length rows' = length rows"
  by auto

lemma mix_two_sources:
  assumes sys: "system_audio_data t = map (Arr2 c1) ss" "ss \<noteq> []" "c1 = 1 \<or> c1 = 2"
    and mic: "mic_audio_data t = map (Arr2 c2) ms" "ms \<noteq> []" "c2 = 1 \<or> c2 = 2"
  shows "\<exists>rows. mixed_audio t = Inr (Some (Arr2 2 rows))
           \<and> length rows = min (length (concat ss)) (length (concat ms))
           \<and> (\<forall>i < length rows. \<forall>j < 2.
                 rows ! i ! j = (elem (ensure_stereo (Arr2 c1 (concat ss))) i j
                               + elem (ensure_stereo (Arr2 c2 (concat ms))) i j) / 2)"
proof -
  obtain xs where xs: "ensure_stereo (Arr2 c1 (concat ss)) = Arr2 2 xs" "length xs = length (concat ss)"
    using ensure_stereo_Arr2 [OF sys(3)] by blast
  obtain ys where ys: "ensure_stereo (Arr2 c2 (concat ms)) = Arr2 2 ys" "length ys = length (concat ms)"
    using ensure_stereo_Arr2 [OF mic(3)] by blast
  have "mixed_audio t = mix_parts [Arr2 2 xs, Arr2 2 ys]"
    using sys mic xs ys by (simp add: mixed_audio_def source_part_uniform)
  then show ?thesis
    unfolding mix_two_stereo xs ys by (auto simp: less_Suc_eq numeral_2_eq_2)
qed

lemma mix_one_source:
  "system_audio_data t = map (Arr2 c) ss \<Longrightarrow> ss \<noteq> [] \<Longrightarrow> mic_audio_data t = [] \<Longrightarrow>
     mixed_audio t = Inr (Some (ensure_stereo (Arr2 c (concat ss))))"
  by (simp add: mixed_audio_def source_part_uniform) (simp add: source_part_def)

lemma mix_no_source:
  "system_audio_data t = [] \<Longrightarrow> mic_audio_data t = [] \<Longrightarrow>
     mixed_audio t = Inr None \<and> save_to_file t p w files = (None, files)"
  by (simp add: mixed_audio_def source_part_def save_to_file_def)


subsection \<open>The mixer on a surround loopback device\<close>

text \<open>
  C3. The save operation is to mix two sources of \<open>N1\<close> and \<open>N2\<close> samples into
  \<open>min N1 N2\<close> samples, each the mean of the two. On a loopback device with six
  channels the system buffer stays six channels wide, the mean of the two differently
  shaped buffers raises, the handler returns \<^verbatim>\<open>None\<close> and no file is written, although
  both sources delivered one sample. (For sources of one or two channels the property
  holds: \<open>mix_two_sources\<close>, \<open>mix_one_source\<close>, \<open>mix_no_source\<close>.)
\<close>

theorem mix_surround_system_with_mic_yields_nothing:
  "mixed_audio
     (audio_thread_run True True
        \<lparr>loopback_channels = Some 6, default_input_channels = Some 1,
         delivered = [System_chunk [[1, 2, 3, 4, 5, 6]], Mic_chunk [[1]]]\<rparr>
        audio_record_thread_init) = Inl ValueError
   \<and> save_to_file
     (audio_thread_run True True
        \<lparr>loopback_channels = Some 6, default_input_channels = Some 1,
         delivered = [System_chunk [[1, 2, 3, 4, 5, 6]], Mic_chunk [[1]]]\<rparr>
        audio_record_thread_init) ''tmp/screen_rec_audio_1.wav'' Write_ok Map.empty
     = (None, Map.empty)"
  by (simp add: audio_thread_run_def audio_record_thread_init_def mixed_audio_def
      source_part_def save_to_file_def min_len_def)

text \<open>
  C4. Every source is to be coerced to two channels before mixing. \<open>ensure_stereo\<close>
  duplicates a single channel (\<open>ensure_stereo_mono_rows\<close>, \<open>ensure_stereo_channels\<close>) but
  returns a buffer of more than two channels as it is: a six-channel system source alone is
  written out as a six-channel artifact.
\<close>

theorem surround_system_audio_is_not_coerced_to_stereo:
  "ensure_stereo (Arr2 6 [[1, 2, 3, 4, 5, 6]]) = Arr2 6 [[1, 2, 3, 4, 5, 6]]
   \<and> save_to_file
     (audio_thread_run True True
        \<lparr>loopback_channels = Some 6, default_input_channels = None,
         delivered = [System_chunk [[1, 2, 3, 4, 5, 6]]]\<rparr>
        audio_record_thread_init) ''tmp/screen_rec_audio_1.wav'' Write_ok Map.empty
     = (Some ''tmp/screen_rec_audio_1.wav'',
        [''tmp/screen_rec_audio_1.wav'' \<mapsto> Wav_file (Arr2 6 [[1, 2, 3, 4, 5, 6]]) 44100])"
  by (simp add: audio_thread_run_def audio_record_thread_init_def mixed_audio_def
      source_part_def save_to_file_def)

subsection \<open>Export\<close>

text \<open>
  C1. When the multiplexer exits with a non-zero code the video-only file is to be
  delivered at the output path. The temporary video is removed before the return code is
  examined, so the copy raises, the handler finds nothing to copy, and the job reports
  success with no file at the output path (here the multiplexer wrote nothing). When the
  multiplexer cannot be launched the copy is delivered (\<open>mux_launch_failure_delivers_copy\<close>),
  and when it succeeds the temporary video is removed (\<open>mux_success_removes_temp\<close>).
\<close>

theorem mux_exit_failure_loses_the_video:
  "export_run (demo_export_env (Exited 1 None))
      (demo_job [numbered_frame 0] ''mp4'' 10 (Some ''tmp/a.wav''))
      [''tmp/a.wav'' \<mapsto> Wav_file (Arr2 2 [[0, 0]]) 44100]
   = ([Progress_updated 1 1 80, Progress_updated 100 100 100,
       Export_finished True (Output_path ''out/Rec_1.mp4'')], Map.empty)"
  by (simp add: export_run_def audio_present_def os_path_exists_def export_with_audio_def
      os_remove_def shutil_copy_def merge_handler_def demo_export_env_def demo_job_def)

lemma mux_launch_failure_delivers_copy:
  assumes "ex_frames t \<noteq> []" "ex_fmt t \<noteq> ''gif''" "audio_present (ex_audio_file t) files"
    and "ffmpeg e = Launch_raises err"
  shows "snd (export_run e t files) (ex_path t) =
           Some (Video_file ''mp4v'' (ex_fps t) (frame_w (ex_frames t ! 0)) (frame_h (ex_frames t ! 0)) (ex_frames t))
         \<and> (ex_path t \<noteq> temp_video e \<longrightarrow>
              snd (export_run e t files) (temp_video e) = snd (export_run e t files) (ex_path t))
         \<and> job_result (export_run e t files) = Export_finished True (Output_path (ex_path t))"
  using assms
  by (simp add: export_run_def export_with_audio_def merge_handler_def os_path_exists_def
      shutil_copy_def job_result_def Let_def)

lemma mux_success_removes_temp:
  assumes "ex_frames t \<noteq> []" "ex_fmt t \<noteq> ''gif''" "audio_present (ex_audio_file t) files"
    and "ffmpeg e = Exited 0 (Some c)" "ex_path t \<noteq> temp_video e" "ex_audio_file t \<noteq> Some (ex_path t)"
  shows "snd (export_run e t files) (ex_path t) = Some c
         \<and> snd (export_run e t files) (temp_video e) = None
         \<and> job_result (export_run e t files) = Export_finished True (Output_path (ex_path t))"
  using assms
  by (auto simp add: export_run_def export_with_audio_def os_path_exists_def os_remove_def
      job_result_def audio_present_def Let_def split: option.splits)

lemma mux_exit_failure_general:
  assumes "ex_frames t \<noteq> []" "ex_fmt t \<noteq> ''gif''" "audio_present (ex_audio_file t) files"
    and "ffmpeg e = Exited rc written" "rc \<noteq> 0" "ex_path t \<noteq> temp_video e"
    and "ex_audio_file t \<noteq> Some (ex_path t)"
  shows "snd (export_run e t files) (ex_path t) = (case written of None \<Rightarrow> files (ex_path t) | Some c \<Rightarrow> Some c)
         \<and> snd (export_run e t files) (temp_video e) = None
         \<and> job_result (export_run e t files) = Export_finished True (Output_path (ex_path t))"
  using assms
  by (auto simp add: export_run_def export_with_audio_def os_path_exists_def os_remove_def
      job_result_def audio_present_def shutil_copy_def merge_handler_def Let_def
      split: option.splits)

text \<open>
  C2. A job with an empty frame sequence fails at once with the "no frames recorded"
  reason: this is its only signal, and the file system is left exactly as it was.
\<close>

theorem empty_recording_fails_before_io:
  "ex_frames t = [] \<Longrightarrow>
     export_run e t files = ([Export_finished False No_frames_recorded], files)"
  by (simp add: export_run_def)

theorem empty_recording_fails_before_io_witness:
  "ex_frames (demo_job [] ''mp4'' 10 (Some ''tmp/a.wav'')) = []
   \<and> export_run (demo_export_env (Exited 0 None)) (demo_job [] ''mp4'' 10 (Some ''tmp/a.wav''))
        [''tmp/a.wav'' \<mapsto> Other_file]
      = ([Export_finished False No_frames_recorded], [''tmp/a.wav'' \<mapsto> Other_file])"
  using empty_recording_fails_before_io
    [of "demo_job [] ''mp4'' 10 (Some ''tmp/a.wav'')" "demo_export_env (Exited 0 None)"
        "[''tmp/a.wav'' \<mapsto> Other_file]"]
  by (simp add: demo_job_def)


subsection \<open>Slicing with a step\<close>

lemma ceil_div_mult: "0 < k \<Longrightarrow> (q * k + k - 1) div k = (q::nat)"
  by (rule div_nat_eqI) (simp_all add: algebra_simps)

lemma ceil_div_rem: "0 < r \<Longrightarrow> r < k \<Longrightarrow> (q * k + r + k - 1) div k = Suc (q::nat)"
  by (rule div_nat_eqI) (simp_all add: algebra_simps)

lemma ceil_div_next: "r < k \<Longrightarrow> (Suc (q * k + r) + k - 1) div k = Suc (q::nat)"
  by (rule div_nat_eqI) (simp_all add: algebra_simps)

lemma ceil_div_Suc:
  assumes k: "0 < k"
  shows "(Suc n + k - 1) div k =
           (if n mod k = 0 then Suc ((n + k - 1) div k) else (n + k - 1) div (k::nat))"
proof -
  define q where "q = n div k"
  define r where "r = n mod k"
  have n: "q * k + r = n" and r: "r < k"
    using k by (simp_all add: q_def r_def)
  have next_q: "(Suc n + k - 1) div k = Suc q"
    using ceil_div_next [OF r, of q] by (simp only: n)
  show ?thesis
  proof (cases "r = 0")
    case True
    have "(n + k - 1) div k = q"
      using ceil_div_mult [OF k, of q] n True by simp
    with next_q True show ?thesis by (simp add: r_def)
  next
    case False
    then have "(n + k - 1) div k = Suc q"
      using ceil_div_rem [of r k q] r by (simp only: n)
    with next_q False show ?thesis by (simp add: r_def)
  qed
qed

lemma filter_multiples:
  "0 < k \<Longrightarrow> filter (\<lambda>i. i mod k = 0) [0..<n] = map (\<lambda>i. i * k) [0..<(n + k - 1) div k]"
proof (induction n)
  case 0
  then show ?case by simp
next
  case (Suc n)
  have step: "(Suc n + k - 1) div k =
                (if n mod k = 0 then Suc ((n + k - 1) div k) else (n + k - 1) div k)"
    using Suc.prems by (rule ceil_div_Suc)
  show ?case
  proof (cases "n mod k = 0")
    case True
    then have "((n + k - 1) div k) * k = n"
      using Suc.prems ceil_div_mult [of k "n div k"] by auto
    then show ?thesis unfolding step using Suc True by simp
  next
    case False
    then show ?thesis unfolding step using Suc by simp
  qed
qed

lemma slice_step_every_nth: "0 < k \<Longrightarrow> slice_step k xs = every_nth k xs"
  by (simp add: slice_step_def every_nth_def filter_multiples comp_def)

lemma every_nth_one: "every_nth 1 xs = xs"
  by (simp add: every_nth_def map_nth)

lemma gif_step_stride:
  "gif_fps \<noteq> 0 \<Longrightarrow> gif_step fps gif_fps = Inr (int (gif_stride fps gif_fps))"
  by (simp add: gif_step_def gif_stride_def floor_divide_of_int_eq)

lemma gif_stride_pos: "0 < gif_stride fps gif_fps"
  by (simp add: gif_stride_def)

lemma export_gif_file:
  assumes "ex_frames t \<noteq> []" and "ex_fmt t = ''gif''" and "ex_gif_fps t \<noteq> 0"
  shows "snd (export_run e t files) =
           files(ex_path t \<mapsto>
             Gif_file (map (gif_frame (resize e))
                         (slice_step (gif_stride (ex_fps t) (ex_gif_fps t)) (ex_frames t)))
                      (ex_gif_fps t))"
  using assms by (simp add: export_run_def export_gif_def gif_step_stride Let_def)

text \<open>
  C5. An animated-image export with capture rate \<open>fps\<close> and target rate \<open>gif_fps\<close>
  (not zero, where the quotient is undefined and the source raises) encodes every
  \<open>max 1 \<lfloor>fps / gif_fps\<rfloor>\<close>-th frame in order; the step is 3 for 30 and 10, and 1 for
  30 and 30 and for 30 and 40, where every frame is selected.
\<close>

theorem gif_export_selects_every_nth:
  assumes "ex_frames t \<noteq> []" and "ex_fmt t = ''gif''" and "ex_gif_fps t \<noteq> 0"
  shows "snd (export_run e t files) (ex_path t) =
           Some (Gif_file (map (gif_frame (resize e))
                             (every_nth (gif_stride (ex_fps t) (ex_gif_fps t)) (ex_frames t)))
                          (ex_gif_fps t))
         \<and> gif_stride 30 10 = 3 \<and> gif_stride 30 30 = 1 \<and> gif_stride 30 40 = 1
         \<and> every_nth 1 (ex_frames t) = ex_frames t"
proof -
  have "snd (export_run e t files) (ex_path t) =
           Some (Gif_file (map (gif_frame (resize e))
                             (every_nth (gif_stride (ex_fps t) (ex_gif_fps t)) (ex_frames t)))
                          (ex_gif_fps t))"
    using export_gif_file [OF assms] by (simp add: slice_step_every_nth gif_stride_pos)
  moreover have "gif_stride 30 10 = 3" "gif_stride 30 30 = 1" "gif_stride 30 40 = 1"
    by (simp_all add: gif_stride_def)
  moreover have "every_nth 1 (ex_frames t) = ex_frames t"
    by (rule every_nth_one)
  ultimately show ?thesis by simp
qed

theorem gif_export_selects_every_nth_witness:
  "snd (export_run (demo_export_env (Exited 0 None))
          (demo_job (map numbered_frame [0, 1, 2, 3, 4, 5, 6]) ''gif'' 10 None) Map.empty)
       ''out/Rec_1.gif''
     = Some (Gif_file (map numbered_frame [0, 3, 6]) 10)"
  using gif_export_selects_every_nth
    [of "demo_job (map numbered_frame [0, 1, 2, 3, 4, 5, 6]) ''gif'' 10 None"
        "demo_export_env (Exited 0 None)" Map.empty]
  by (simp add: demo_job_def demo_export_env_def every_nth_def gif_frame_def
      cvtColor_BGR2RGB_def numbered_frame_def upt_rec)

text \<open>
  C8. In the animated-image export each selected frame is encoded after \<open>gif_frame\<close>:
  a frame wider than 1000 pixels is resized with the one factor \<open>1000 / width\<close> on both
  axes, and a frame of width at most 1000 is only converted in channel order, its
  dimensions unchanged.
\<close>

theorem gif_export_downscales_wide_frames:
  assumes "ex_frames t \<noteq> []" and "ex_fmt t = ''gif''" and "ex_gif_fps t \<noteq> 0"
  shows "snd (export_run e t files) (ex_path t) =
           Some (Gif_file (map (gif_frame (resize e))
                             (slice_step (nat (max 1 (ex_fps t div ex_gif_fps t))) (ex_frames t)))
                          (ex_gif_fps t))
         \<and> (\<forall>f. 1000 < frame_w f \<longrightarrow>
               gif_frame (resize e) f =
                 resize e (cvtColor_BGR2RGB f) (1000 / real (frame_w f)) (1000 / real (frame_w f)))
         \<and> (\<forall>f. frame_w f \<le> 1000 \<longrightarrow>
               gif_frame (resize e) f = cvtColor_BGR2RGB f
               \<and> frame_w (gif_frame (resize e) f) = frame_w f
               \<and> frame_h (gif_frame (resize e) f) = frame_h f)"
  using assms
  by (simp add: export_run_def export_gif_def gif_step_def gif_frame_def cvtColor_BGR2RGB_def
      Let_def)

theorem gif_export_downscales_wide_frames_witness:
  "snd (export_run (demo_export_env (Exited 0 None))
          (demo_job [solid_frame 500 2000, solid_frame 600 800] ''gif'' 30 None) Map.empty)
       ''out/Rec_1.gif''
     = Some (Gif_file
               [\<lparr>frame_h = 250, frame_w = 1000, pixels = replicate (250 * 1000) (30, 20, 10)\<rparr>,
                \<lparr>frame_h = 600, frame_w = 800, pixels = replicate (600 * 800) (30, 20, 10)\<rparr>] 30)"
  using gif_export_downscales_wide_frames
    [of "demo_job [solid_frame 500 2000, solid_frame 600 800] ''gif'' 30 None"
        "demo_export_env (Exited 0 None)" Map.empty]
  by (simp add: demo_job_def demo_export_env_def slice_step_def gif_frame_def
      cvtColor_BGR2RGB_def solid_frame_def demo_resize_def upt_rec)


subsection \<open>The capture loop\<close>

lemma capture_loop_append:
  "capture_loop (ts @ us) s = capture_loop us (capture_loop ts s)"
  by (induction ts arbitrary: s) simp_all

lemma capture_loop_frames: "cap_frames (capture_loop ts s) = cap_frames s @ grabbed ts"
  by (induction ts arbitrary: s rule: grabbed.induct) simp_all

lemma capture_loop_count: "cap_count (capture_loop ts s) = cap_count s + length (grabbed ts)"
  by (induction ts arbitrary: s rule: grabbed.induct) simp_all

lemma grabbed_append: "grabbed (ts @ us) = grabbed ts @ grabbed us"
  by (induction ts rule: grabbed.induct) simp_all

text \<open>
  C7. A tick on which grabbing or converting raises only records the error: no frame is
  appended, the count is not incremented and nothing is emitted; the loop goes on with the
  ticks that follow, so the run still returns the frames grabbed before and after it.
\<close>

theorem capture_failure_is_swallowed:
  "capture_tick (Tick_raises err) s = s\<lparr>cap_printed := cap_printed s @ [err]\<rparr>
   \<and> cap_frames (capture_tick (Tick_raises err) s) = cap_frames s
   \<and> cap_count (capture_tick (Tick_raises err) s) = cap_count s
   \<and> cap_emitted (capture_tick (Tick_raises err) s) = cap_emitted s
   \<and> capture_loop (before @ Tick_raises err # rest) s =
       capture_loop rest (capture_tick (Tick_raises err) (capture_loop before s))
   \<and> cap_frames (capture_loop (before @ Tick_raises err # rest) s) =
       cap_frames s @ grabbed before @ grabbed rest
   \<and> cap_count (capture_loop (before @ Tick_raises err # rest) s) =
       cap_count s + length (grabbed before) + length (grabbed rest)
   \<and> rt_frames (fst (record_thread_run (e\<lparr>ticks := before @ Tick_raises err # rest\<rparr>) t files)) =
       grabbed before @ grabbed rest"
  by (simp add: capture_loop_append capture_loop_frames capture_loop_count grabbed_append
      record_thread_run_def capture_start_def Let_def split: option.splits)

theorem capture_failure_is_swallowed_witness:
  "rt_frames (fst (record_thread_run
      (demo_run_env [Grabbed (numbered_frame 0), Tick_raises OSError, Grabbed (numbered_frame 1)]
         [] None Write_ok)
      (record_thread_init True 30 (Some demo_region) False) Map.empty))
   = [numbered_frame 0, numbered_frame 1]"
  using capture_failure_is_swallowed
    [of OSError capture_start "[Grabbed (numbered_frame 0)]" "[Grabbed (numbered_frame 1)]"
        "demo_run_env [] [] None Write_ok" "record_thread_init True 30 (Some demo_region) False"
        Map.empty]
  by (simp add: demo_run_env_def)

subsection \<open>The session\<close>

lemma thread_runs_session:
  "fst (thread_runs e w) =
     (case record_thread (fst w) of
        None \<Rightarrow> fst w
      | Some t \<Rightarrow> (fst w)\<lparr>record_thread := Some (fst (record_thread_run e t (snd w)))\<rparr>)"
  by (simp add: thread_runs_def split: option.splits prod.splits)

lemma record_thread_run_frames:
  "rt_frames (fst (record_thread_run e t files)) = grabbed (ticks e)"
  by (simp add: record_thread_run_def capture_loop_frames capture_start_def Let_def
      split: option.splits)

lemma start_recording_frames: "frames (start_recording av rg s) = frames s"
  by (simp add: start_recording_def Let_def)

lemma sub_run_frames:
  "ending = Stop_recording fin \<or> ending = Reselect_region \<Longrightarrow>
     frames (fst (sub_run av rg e ending w)) = frames (fst w) @ grabbed (ticks e)"
  by (auto simp add: sub_run_def thread_runs_session stop_recording_def reselect_region_def
      start_recording_def record_thread_run_frames Let_def)

text \<open>
  C6. In a session with no frames yet, a sub-run that captures \<open>k\<close> frames and is ended by
  a reselection, followed by a sub-run that captures \<open>m\<close> frames, leaves the first sub-run's
  frames followed by the second's: \<open>k + m\<close> frames in capture order. (From any session the
  two sub-runs are appended to what was there: \<open>sub_run_frames\<close>.)
\<close>

theorem reselect_preserves_frames:
  assumes "frames (fst w) = []"
  shows "frames (fst (sub_run av rg2 e2 (Stop_recording fin) (sub_run av rg1 e1 Reselect_region w)))
           = grabbed (ticks e1) @ grabbed (ticks e2)
         \<and> length (frames (fst (sub_run av rg2 e2 (Stop_recording fin)
                                   (sub_run av rg1 e1 Reselect_region w))))
           = length (grabbed (ticks e1)) + length (grabbed (ticks e2))"
  using assms by (simp add: sub_run_frames)

theorem reselect_preserves_frames_witness:
  "frames (fst (sub_run True demo_region
                  (demo_run_env [Grabbed (numbered_frame 2)] [] None Write_ok)
                  (Stop_recording True)
                  (sub_run True demo_region
                     (demo_run_env [Grabbed (numbered_frame 0), Grabbed (numbered_frame 1)] [] None Write_ok)
                     Reselect_region (screen_recorder_init, Map.empty))))
     = [numbered_frame 0, numbered_frame 1, numbered_frame 2]"
  using reselect_preserves_frames
    [of "(screen_recorder_init, Map.empty)" True demo_region
        "demo_run_env [Grabbed (numbered_frame 2)] [] None Write_ok" True demo_region
        "demo_run_env [Grabbed (numbered_frame 0), Grabbed (numbered_frame 1)] [] None Write_ok"]
  by (simp add: screen_recorder_init_def demo_run_env_def)

lemma perform_frames_prefix: "prefix (frames (fst w)) (frames (fst (perform av x w)))"
proof (cases x)
  case (Thread_runs e)
  then show ?thesis by (simp add: thread_runs_session split: option.splits)
next
  case (Stop_recording fin)
  then show ?thesis by (simp add: stop_recording_def Let_def split: option.splits)
next
  case Reselect_region
  then show ?thesis
    by (simp add: reselect_region_def stop_recording_def Let_def split: option.splits)
qed (simp_all add: start_recording_frames update_time_def start_export_def)

text \<open>
  C9. No sequence of operations removes a frame from the cumulative sequence: the old
  sequence stays a prefix of the new one. Starting a recording resets the frame list, the
  elapsed time and the audio path only when the frame list is empty and leaves all three
  as they are otherwise, so a new recording started after a completed one appends its
  frames to those of the previous recording.
\<close>

theorem frames_never_cleared:
  "prefix (frames (fst w)) (frames (fst (fold (perform av) xs w)))
   \<and> (frames (fst w) \<noteq> [] \<longrightarrow> frames (fst (fold (perform av) xs w)) \<noteq> [])
   \<and> (frames s \<noteq> [] \<longrightarrow>
        frames (start_recording av rg s) = frames s
        \<and> record_time (start_recording av rg s) = record_time s
        \<and> audio_file (start_recording av rg s) = audio_file s)
   \<and> (frames s = [] \<longrightarrow>
        frames (start_recording av rg s) = []
        \<and> record_time (start_recording av rg s) = 0
        \<and> audio_file (start_recording av rg s) = None)
   \<and> frames (fst (sub_run av rg2 e2 (Stop_recording True)
                     (sub_run av rg1 e1 (Stop_recording True) w)))
       = frames (fst w) @ grabbed (ticks e1) @ grabbed (ticks e2)"
proof -
  have pre: "prefix (frames (fst w)) (frames (fst (fold (perform av) xs w)))"
  proof (induction xs arbitrary: w)
    case Nil
    show ?case by simp
  next
    case (Cons x xs)
    have "prefix (frames (fst w)) (frames (fst (perform av x w)))"
      by (rule perform_frames_prefix)
    also have "prefix \<dots> (frames (fst (fold (perform av) xs (perform av x w))))"
      by (rule Cons.IH)
    finally show ?case by simp
  qed
  then have "frames (fst w) \<noteq> [] \<longrightarrow> frames (fst (fold (perform av) xs w)) \<noteq> []"
    by auto
  with pre show ?thesis
    by (simp add: sub_run_frames) (simp add: start_recording_def Let_def)
qed

theorem frames_never_cleared_witness:
  "frames (fst (sub_run True demo_region
                  (demo_run_env [Grabbed (numbered_frame 1)] [] None Write_ok)
                  (Stop_recording True)
                  (sub_run True demo_region
                     (demo_run_env [Grabbed (numbered_frame 0)] [] None Write_ok)
                     (Stop_recording True) (screen_recorder_init, Map.empty))))
     = [numbered_frame 0, numbered_frame 1]
   \<and> record_time (start_recording True demo_region
        (screen_recorder_init\<lparr>frames := [numbered_frame 0], record_time := 7\<rparr>)) = 7"
  using frames_never_cleared
    [of "(screen_recorder_init, Map.empty)" True "[]"
        "screen_recorder_init\<lparr>frames := [numbered_frame 0], record_time := 7\<rparr>" demo_region
        demo_region "demo_run_env [Grabbed (numbered_frame 1)] [] None Write_ok"
        demo_region "demo_run_env [Grabbed (numbered_frame 0)] [] None Write_ok"]
  by (simp add: screen_recorder_init_def demo_run_env_def)

subsection \<open>The stored audio path\<close>

lemma audio_thread_run_silent:
  "delivered a = [] \<Longrightarrow>
     system_audio_data (audio_thread_run sa av a t) = [] \<and>
     mic_audio_data (audio_thread_run sa av a t) = []"
  by (simp add: audio_thread_run_def Let_def split: option.splits)

lemma save_to_file_nothing_written:
  "fst (save_to_file a p wr files) = None \<Longrightarrow> snd (save_to_file a p wr files) = files"
  by (simp add: save_to_file_def split: sum.splits option.splits write_outcome.splits)

lemma save_to_file_write_raises: "save_to_file a p (Write_raises err) files = (None, files)"
  by (simp add: save_to_file_def split: sum.splits option.splits)

lemma save_to_file_silent:
  "system_audio_data a = [] \<Longrightarrow> mic_audio_data a = [] \<Longrightarrow> save_to_file a p wr files = (None, files)"
  by (simp add: mixed_audio_def source_part_def save_to_file_def)

lemma export_run_missing_audio:
  "\<not> os_path_exists p files \<Longrightarrow>
     export_run x (j\<lparr>ex_audio_file := Some p\<rparr>) files = export_run x (j\<lparr>ex_audio_file := None\<rparr>) files"
  by (simp add: export_run_def audio_present_def export_gif_def export_video_only_def Let_def
      split: sum.splits)

text \<open>
  C10. A record thread with audio enabled stores the temporary audio path whatever the
  save does; when no chunk was delivered or the write raises, the file system is unchanged,
  so the path may name no file. The session takes the path over at the stop. An export
  whose audio path names no file runs exactly like an export without audio, and for a
  raster video format it writes the video directly and finishes with success.
\<close>

theorem audio_path_stored_without_file:
  assumes "rt_record_audio t"
  shows "rt_audio_file (fst (record_thread_run e t files)) = Some (audio_temp_path e)
    \<and> (delivered (audio e) = [] \<or> (\<exists>err. audio_write e = Write_raises err) \<longrightarrow>
          snd (snd (record_thread_run e t files)) = files)
    \<and> (check_audio s \<longrightarrow>
          audio_file (fst (sub_run True rg e (Stop_recording fin) (s, files))) = Some (audio_temp_path e))
    \<and> (\<not> os_path_exists p files' \<longrightarrow>
          export_run x (j\<lparr>ex_audio_file := Some p\<rparr>) files' =
          export_run x (j\<lparr>ex_audio_file := None\<rparr>) files')
    \<and> (\<not> os_path_exists p files' \<and> ex_frames j \<noteq> [] \<and> ex_fmt j \<noteq> ''gif'' \<longrightarrow>
          export_run x (j\<lparr>ex_audio_file := Some p\<rparr>) files' =
            (map (\<lambda>i. Progress_updated (i + 1) (length (ex_frames j)) 100) [0..<length (ex_frames j)]
               @ [Export_finished True (Output_path (ex_path j))],
             files'(ex_path j \<mapsto>
               Video_file (fourcc_of (ex_fmt j)) (ex_fps j) (frame_w (ex_frames j ! 0))
                 (frame_h (ex_frames j ! 0)) (ex_frames j))))"
proof -
  have stored: "rt_audio_file (fst (record_thread_run e t files)) = Some (audio_temp_path e)"
    using assms by (simp add: record_thread_run_def Let_def)
  have nofile: "snd (snd (record_thread_run e t files)) = files"
    if "delivered (audio e) = [] \<or> (\<exists>err. audio_write e = Write_raises err)"
    using that assms
    by (auto simp add: record_thread_run_def Let_def save_to_file_write_raises
        save_to_file_silent audio_thread_run_silent)
  have session: "audio_file (fst (sub_run True rg e (Stop_recording fin) (s, files))) = Some (audio_temp_path e)"
    if "check_audio s"
    using that
    by (simp add: sub_run_def thread_runs_def stop_recording_def start_recording_def
        record_thread_init_def record_thread_run_def Let_def split: prod.splits)
  have export: "export_run x (j\<lparr>ex_audio_file := Some p\<rparr>) files' =
          export_run x (j\<lparr>ex_audio_file := None\<rparr>) files'"
    if "\<not> os_path_exists p files'"
    using that by (rule export_run_missing_audio)
  have video: "export_run x (j\<lparr>ex_audio_file := Some p\<rparr>) files' =
            (map (\<lambda>i. Progress_updated (i + 1) (length (ex_frames j)) 100) [0..<length (ex_frames j)]
               @ [Export_finished True (Output_path (ex_path j))],
             files'(ex_path j \<mapsto>
               Video_file (fourcc_of (ex_fmt j)) (ex_fps j) (frame_w (ex_frames j ! 0))
                 (frame_h (ex_frames j ! 0)) (ex_frames j)))"
    if "\<not> os_path_exists p files' \<and> ex_frames j \<noteq> [] \<and> ex_fmt j \<noteq> ''gif''"
    using that
    by (simp add: export_run_def audio_present_def export_video_only_def Let_def)
  from stored nofile session export video show ?thesis by blast
qed

theorem audio_path_stored_without_file_witness:
  "audio_file (fst (sub_run True demo_region
                      (demo_run_env [Grabbed (numbered_frame 0)] [] None Write_ok)
                      (Stop_recording True) (screen_recorder_init, Map.empty)))
     = Some ''tmp/screen_rec_audio_1.wav''
   \<and> snd (snd (record_thread_run (demo_run_env [Grabbed (numbered_frame 0)] [] None Write_ok)
                 (record_thread_init True 30 (Some demo_region) True) Map.empty)) = Map.empty
   \<and> export_run (demo_export_env (Exited 0 None))
        (demo_job [numbered_frame 0] ''mp4'' 10 (Some ''tmp/screen_rec_audio_1.wav'')) Map.empty
      = ([Progress_updated 1 1 100, Export_finished True (Output_path ''out/Rec_1.mp4'')],
         [''out/Rec_1.mp4'' \<mapsto> Video_file ''mp4v'' 30 1 1 [numbered_frame 0]])"
  using audio_path_stored_without_file
    [of "record_thread_init True 30 (Some demo_region) True"
        "demo_run_env [Grabbed (numbered_frame 0)] [] None Write_ok" Map.empty
        screen_recorder_init demo_region True "''tmp/screen_rec_audio_1.wav''" Map.empty
        "demo_export_env (Exited 0 None)" "demo_job [numbered_frame 0] ''mp4'' 10 None"]
  by (simp add: record_thread_init_def demo_run_env_def screen_recorder_init_def demo_job_def
      os_path_exists_def fourcc_of_def numbered_frame_def export_run_def audio_present_def
      export_video_only_def)

end
